theory Spec2Isabelle
  imports Main
begin

section \<open>JavaScript strings and numbers\<close>

text \<open>
  A JavaScript string is modelled as a \<^typ>\<open>string\<close>, one \<^typ>\<open>char\<close> per code unit,
  for code units in the range 0..255. The device protocol is ASCII text, so every
  line of the protocol is in that range. The white space and line terminator
  characters of ECMAScript that lie in the range are listed below; the others
  (U+1680, U+2000..U+200A, U+2028, U+2029, U+202F, U+205F, U+3000, U+FEFF) are
  outside it.
\<close>

definition js_whitespace :: "char \<Rightarrow> bool" where
  "js_whitespace c \<longleftrightarrow>
     c = CHR 0x09 \<or> c = CHR 0x0A \<or> c = CHR 0x0B \<or> c = CHR 0x0C \<or> c = CHR 0x0D \<or>
     c = CHR 0x20 \<or> c = CHR 0xA0"

definition line_terminator :: "char \<Rightarrow> bool" where
  "line_terminator c \<longleftrightarrow> c = CHR 0x0A \<or> c = CHR 0x0D"

definition crlf :: string where
  "crlf = [CHR 0x0D, CHR 0x0A]"

text \<open>\<^verbatim>\<open>s.trim()\<close>: white space and line terminators leave both ends.\<close>

definition trim :: "string \<Rightarrow> string" where
  "trim s = rev (dropWhile js_whitespace (rev (dropWhile js_whitespace s)))"

text \<open>\<^verbatim>\<open>s.startsWith(p)\<close> and \<^verbatim>\<open>s.substring(n)\<close> (to the end of the string).\<close>

definition startsWith :: "string \<Rightarrow> string \<Rightarrow> bool" where
  "startsWith s p \<longleftrightarrow> take (length p) s = p"

definition substring :: "string \<Rightarrow> nat \<Rightarrow> string" where
  "substring s n = drop n s"

text \<open>
  \<^verbatim>\<open>s.split(sep)\<close> for a separator of one character: the pieces between the
  separators, in order; the empty string gives one empty piece. The second
  argument holds the piece being read, last character first.
\<close>

fun split_from :: "char \<Rightarrow> string \<Rightarrow> string \<Rightarrow> string list" where
  "split_from sep cur [] = [rev cur]"
| "split_from sep cur (c # cs) =
     (if c = sep then rev cur # split_from sep [] cs
      else split_from sep (c # cur) cs)"

definition split :: "char \<Rightarrow> string \<Rightarrow> string list" where
  "split sep s = split_from sep [] s"

text \<open>\<^verbatim>\<open>p.replace(/"/g, '')\<close>: every double quote is removed.\<close>

definition strip_quotes :: "string \<Rightarrow> string" where
  "strip_quotes p = filter (\<lambda>c. c \<noteq> CHR 0x22) p"

text \<open>
  A value that may be \<^verbatim>\<open>undefined\<close> is an option; \<^verbatim>\<open>ToString\<close> of it is what a
  template literal, \<^verbatim>\<open>RegExp.prototype.exec\<close> and \<^verbatim>\<open>parseInt\<close> apply to their
  argument.
\<close>

definition to_str :: "string option \<Rightarrow> string" where
  "to_str v = (case v of None \<Rightarrow> ''undefined'' | Some s \<Rightarrow> s)"

text \<open>
  \<^verbatim>\<open>const [info, value] = parts\<close>: the first two elements of the array, each
  \<^verbatim>\<open>undefined\<close> when the array is too short.
\<close>

definition destructure2 :: "string list \<Rightarrow> string option \<times> string option" where
  "destructure2 parts =
     (case parts of
        [] \<Rightarrow> (None, None)
      | [a] \<Rightarrow> (Some a, None)
      | a # b # _ \<Rightarrow> (Some a, Some b))"

text \<open>
  The result of \<^verbatim>\<open>parseInt(value, 10)\<close>: \<^verbatim>\<open>NaN\<close> or an integer. The integer is
  exact here; the rounding of a JavaScript number beyond 2^53 and the sign of a
  zero are not modelled.
\<close>

datatype jsnum = NaN | Number int

definition is_digit :: "char \<Rightarrow> bool" where
  "is_digit c \<longleftrightarrow> 48 \<le> (of_char c :: nat) \<and> (of_char c :: nat) \<le> 57"

definition digits_value :: "string \<Rightarrow> int" where
  "digits_value ds = foldl (\<lambda>a c. 10 * a + (int (of_char c) - 48)) 0 ds"

definition parseInt10 :: "string option \<Rightarrow> jsnum" where
  "parseInt10 v =
     (let s = dropWhile js_whitespace (to_str v);
          neg = (case s of [] \<Rightarrow> False | c # _ \<Rightarrow> c = CHR ''-'');
          r = (case s of [] \<Rightarrow> [] | c # cs \<Rightarrow> if c = CHR ''-'' \<or> c = CHR ''+'' then cs else s);
          ds = takeWhile is_digit r
      in if ds = [] then NaN
         else Number (if neg then - digits_value ds else digits_value ds))"

subsection \<open>The regular expressions of the decoder\<close>

text \<open>
  The two patterns, \<^verbatim>\<open>/mute "(.*)"/\<close> and \<^verbatim>\<open>/crosspoint_mute "(.*)" "(.*)"/\<close>,
  are sequences of literal characters and greedy capturing groups \<^verbatim>\<open>(.*)\<close>, where
  the dot matches every character but a line terminator. \<open>match_here\<close> matches a
  pattern at the start of a string with the backtracking order of ECMAScript (a
  group first takes one more character, and gives it back when the rest of the
  pattern fails) and returns the captured groups; \<open>regex_exec\<close> is
  \<^verbatim>\<open>regex.exec(s)\<close> for a pattern without flags: the match at the leftmost
  position where there is one.
\<close>

datatype re_item = Lit char | Group

fun match_here :: "re_item list \<Rightarrow> string \<Rightarrow> string list option" where
  "match_here [] s = Some []"
| "match_here (Lit c # p) [] = None"
| "match_here (Lit c # p) (x # xs) = (if x = c then match_here p xs else None)"
| "match_here (Group # p) [] = map_option (Cons []) (match_here p [])"
| "match_here (Group # p) (x # xs) =
     (if line_terminator x then map_option (Cons []) (match_here p (x # xs))
      else (case match_here (Group # p) xs of
              Some (g # gs) \<Rightarrow> Some ((x # g) # gs)
            | _ \<Rightarrow> map_option (Cons []) (match_here p (x # xs))))"

fun regex_exec :: "re_item list \<Rightarrow> string \<Rightarrow> string list option" where
  "regex_exec p [] = match_here p []"
| "regex_exec p (x # xs) =
     (case match_here p (x # xs) of
        Some gs \<Rightarrow> Some gs
      | None \<Rightarrow> regex_exec p xs)"

definition mute_regex :: "re_item list" where
  \<open>mute_regex = map Lit ''mute "'' @ [Group] @ map Lit ''"''\<close>

definition crosspoint_regex :: "re_item list" where
  \<open>crosspoint_regex =
     map Lit ''crosspoint_mute "'' @ [Group] @ map Lit ''" "'' @ [Group] @ map Lit ''"''\<close>

text \<open>
  \<^verbatim>\<open>obj[key] = v\<close> on an object made by \<^verbatim>\<open>{}\<close>. The key \<^verbatim>\<open>__proto__\<close> is the
  accessor of \<^verbatim>\<open>Object.prototype\<close>, whose setter ignores a number: no property
  is created.
\<close>

definition obj_set :: "(string \<rightharpoonup> jsnum) \<Rightarrow> string \<Rightarrow> jsnum \<Rightarrow> (string \<rightharpoonup> jsnum)" where
  "obj_set m k v = (if k = ''__proto__'' then m else m(k \<mapsto> v))"

section \<open>The module instance\<close>

text \<open>
  The calls that leave the instance (the host's \<^verbatim>\<open>updateStatus\<close> and \<^verbatim>\<open>log\<close>, the
  socket's constructor, \<^verbatim>\<open>destroy\<close> and \<^verbatim>\<open>send\<close>, the refresh hooks) are recorded,
  in the order they are made, in the trace of the instance.
\<close>

text \<open>The members of \<^verbatim>\<open>InstanceStatus\<close> that the module names.\<close>

datatype instance_status = Ok | Error | Disconnected

datatype log_level = Debug | Info | Warn | LogError

datatype effect =
    UpdateStatus instance_status "string option"
  | Log log_level string
  | SocketCreate nat string string
  | SocketDestroy nat
  | SocketSend nat string
  | UpdateActions
  | UpdateFeedbacks
  | UpdateVariableDefinitions
  | CheckFeedbacks string

text \<open>
  The configuration object: both fields come from text inputs of the
  configuration form, and a field may be absent.
\<close>

record module_config =
  host :: "string option"
  port :: "string option"

text \<open>Truthiness of such a field: defined and not the empty string.\<close>

definition truthy :: "string option \<Rightarrow> bool" where
  "truthy v \<longleftrightarrow> (case v of None \<Rightarrow> False | Some s \<Rightarrow> s \<noteq> [])"

text \<open>
  A \<^verbatim>\<open>TCPHelper\<close> object of the host library, as far as the module observes it:
  whether \<^verbatim>\<open>destroy()\<close> was called on it and what its \<^verbatim>\<open>isConnected\<close> reads.
\<close>

record tcp_helper =
  target_host :: string
  target_port :: string
  destroyed :: bool
  isConnected :: bool

text \<open>
  The instance. \<open>sockets\<close> is the store of every \<^verbatim>\<open>TCPHelper\<close> the instance has
  created, and the field \<open>socket\<close> is \<^verbatim>\<open>null\<close> or a reference into it. The field
  \<open>config\<close> is \<^verbatim>\<open>undefined\<close> until \<^verbatim>\<open>init\<close> or \<^verbatim>\<open>configUpdated\<close> assigns it; every
  read of it follows such an assignment (\<^verbatim>\<open>connectToDevice\<close> is called from these
  two only, and the connect handler exists only on a socket made there), so the
  model starts it as an object without fields.
\<close>

record module_instance =
  socket :: "nat option"
  config :: module_config
  virtualChannels :: "string list"
  presets :: "string list"
  channelMuteStatus :: "string \<rightharpoonup> jsnum"
  crosspointMuteStatus :: "string \<rightharpoonup> jsnum"
  sockets :: "tcp_helper list"
  trace :: "effect list"

definition new_instance :: module_instance where
  "new_instance =
     \<lparr> socket = None, config = \<lparr> host = None, port = None \<rparr>,
       virtualChannels = [], presets = [],
       channelMuteStatus = Map.empty, crosspointMuteStatus = Map.empty,
       sockets = [], trace = [] \<rparr>"

definition emit :: "effect \<Rightarrow> module_instance \<Rightarrow> module_instance" where
  "emit e w = w\<lparr> trace := trace w @ [e] \<rparr>"

definition updateStatus :: "instance_status \<Rightarrow> string option \<Rightarrow> module_instance \<Rightarrow> module_instance" where
  "updateStatus s msg w = emit (UpdateStatus s msg) w"

definition log :: "log_level \<Rightarrow> string \<Rightarrow> module_instance \<Rightarrow> module_instance" where
  "log lvl msg w = emit (Log lvl msg) w"

text \<open>
  Modelled from the spec: the bodies of \<^verbatim>\<open>UpdateActions\<close>, \<^verbatim>\<open>UpdateFeedbacks\<close> and
  \<^verbatim>\<open>UpdateVariableDefinitions\<close> (the files actions, feedbacks and variables of the
  repository) and of the host's \<^verbatim>\<open>checkFeedbacks\<close> are consumers that only read
  the mirrored state; each call is recorded and changes nothing else.
\<close>

definition updateActions :: "module_instance \<Rightarrow> module_instance" where
  "updateActions w = emit UpdateActions w"

definition updateFeedbacks :: "module_instance \<Rightarrow> module_instance" where
  "updateFeedbacks w = emit UpdateFeedbacks w"

definition updateVariableDefinitions :: "module_instance \<Rightarrow> module_instance" where
  "updateVariableDefinitions w = emit UpdateVariableDefinitions w"

definition checkFeedbacks :: "string \<Rightarrow> module_instance \<Rightarrow> module_instance" where
  "checkFeedbacks name w = emit (CheckFeedbacks name) w"

subsection \<open>The socket\<close>

text \<open>\<^verbatim>\<open>this.socket.destroy()\<close> on the socket \<open>i\<close> of the store.\<close>

definition socket_destroy :: "nat \<Rightarrow> module_instance \<Rightarrow> module_instance" where
  "socket_destroy i w =
     emit (SocketDestroy i)
       (w\<lparr> sockets := (sockets w)[i := (sockets w ! i)\<lparr> destroyed := True \<rparr>] \<rparr>)"

text \<open>\<^verbatim>\<open>this.socket && this.socket.isConnected\<close>.\<close>

definition socket_connected :: "module_instance \<Rightarrow> bool" where
  "socket_connected w \<longleftrightarrow>
     (case socket w of
        None \<Rightarrow> False
      | Some i \<Rightarrow> i < length (sockets w) \<and> isConnected (sockets w ! i))"

definition sendCommand :: "string \<Rightarrow> module_instance \<Rightarrow> module_instance" where
  "sendCommand cmd w =
     (case socket w of
        None \<Rightarrow> log LogError ''Socket not connected'' w
      | Some i \<Rightarrow>
          if socket_connected w then
            log Debug (''Command sent: '' @ cmd) (emit (SocketSend i (cmd @ crlf)) w)
          else log LogError ''Socket not connected'' w)"

definition requestDeviceConfiguration :: "module_instance \<Rightarrow> module_instance" where
  "requestDeviceConfiguration w =
     sendCommand ''get presets'' (sendCommand ''get virtual_channels'' w)"

subsection \<open>Decoding inbound data\<close>

definition crosspoint_key :: "string \<Rightarrow> string \<Rightarrow> string" where
  "crosspoint_key input output = input @ '':'' @ output"

definition processDeviceData :: "string \<Rightarrow> module_instance \<Rightarrow> module_instance" where
  "processDeviceData data w0 =
     (let w = log Debug (''Data received: '' @ data) w0 in
      if startsWith data ''virtual_channels='' then
        updateActions
          (w\<lparr> virtualChannels :=
                map trim (split CHR '','' (substring data (length ''virtual_channels=''))) \<rparr>)
      else if startsWith data ''presets='' then
        updateActions
          (w\<lparr> presets :=
                map (\<lambda>p. trim (strip_quotes p))
                  (split CHR '','' (substring data (length ''presets=''))) \<rparr>)
      else if startsWith data ''mute '' then
        (case destructure2 (split CHR ''='' data) of
           (info, val) \<Rightarrow>
             (case regex_exec mute_regex (to_str info) of
                Some (channel # _) \<Rightarrow>
                  checkFeedbacks ''channelMuteStatus''
                    (w\<lparr> channelMuteStatus :=
                          obj_set (channelMuteStatus w) channel (parseInt10 val) \<rparr>)
              | _ \<Rightarrow> w))
      else if startsWith data ''crosspoint_mute '' then
        (case destructure2 (split CHR ''='' data) of
           (info, val) \<Rightarrow>
             (case regex_exec crosspoint_regex (to_str info) of
                Some (input # output # _) \<Rightarrow>
                  checkFeedbacks ''crosspointMuteStatus''
                    (w\<lparr> crosspointMuteStatus :=
                          obj_set (crosspointMuteStatus w) (crosspoint_key input output)
                            (parseInt10 val) \<rparr>)
              | _ \<Rightarrow> w))
      else w)"

subsection \<open>The lifecycle\<close>

definition connectToDevice :: "module_instance \<Rightarrow> module_instance" where
  "connectToDevice w0 =
     (let w = (case socket w0 of
                 Some i \<Rightarrow> (socket_destroy i w0)\<lparr> socket := None \<rparr>
               | None \<Rightarrow> w0)
      in if truthy (host (config w)) \<and> truthy (port (config w)) then
           emit (SocketCreate (length (sockets w)) (to_str (host (config w))) (to_str (port (config w))))
             (w\<lparr> socket := Some (length (sockets w)),
                 sockets := sockets w @
                   [\<lparr> target_host = to_str (host (config w)),
                      target_port = to_str (port (config w)),
                      destroyed = False, isConnected = False \<rparr>] \<rparr>)
         else w)"

definition init :: "module_config \<Rightarrow> module_instance \<Rightarrow> module_instance" where
  "init cfg w =
     updateVariableDefinitions
       (updateFeedbacks
          (updateActions
             (connectToDevice
                (updateStatus Ok None (w\<lparr> config := cfg \<rparr>)))))"

definition destroy :: "module_instance \<Rightarrow> module_instance" where
  "destroy w0 =
     log Debug ''Module instance destroyed''
       (case socket w0 of
          Some i \<Rightarrow> (socket_destroy i w0)\<lparr> socket := None \<rparr>
        | None \<Rightarrow> w0)"

definition configUpdated :: "module_config \<Rightarrow> module_instance \<Rightarrow> module_instance" where
  "configUpdated cfg w = connectToDevice (w\<lparr> config := cfg \<rparr>)"

subsection \<open>The handlers of the socket's events\<close>

definition on_connect :: "module_instance \<Rightarrow> module_instance" where
  "on_connect w =
     requestDeviceConfiguration
       (log Info
          (''Connected to SoundStructure at '' @ to_str (host (config w)) @ '':''
             @ to_str (port (config w)))
          (updateStatus Ok None w))"

definition on_data :: "string \<Rightarrow> module_instance \<Rightarrow> module_instance" where
  "on_data chunk w = processDeviceData chunk w"

definition on_error :: "string \<Rightarrow> module_instance \<Rightarrow> module_instance" where
  "on_error msg w =
     log LogError (''Connection error: '' @ msg) (updateStatus Error (Some msg) w)"

definition on_close :: "module_instance \<Rightarrow> module_instance" where
  "on_close w =
     log Warn ''Connection closed'' (updateStatus Disconnected (Some ''Connection closed'') w)"

section \<open>The instance as a transition system\<close>

text \<open>
  The host calls \<^verbatim>\<open>init\<close>, \<^verbatim>\<open>configUpdated\<close> and \<^verbatim>\<open>destroy\<close>, an action calls
  \<^verbatim>\<open>sendCommand\<close>, and a socket emits its events; each is handled to the end
  before the next one, on the one thread of the event loop. A socket emits
  events to the handlers registered on it until \<^verbatim>\<open>destroy()\<close> is called on it,
  which removes them: a socket is live when it is in the store and not
  destroyed. The library sets \<^verbatim>\<open>isConnected\<close> of a socket before it emits
  \<^verbatim>\<open>connect\<close> and clears it before \<^verbatim>\<open>error\<close> and \<^verbatim>\<open>close\<close>.
\<close>

datatype event =
    Init module_config
  | ConfigUpdated module_config
  | Destroy
  | SendCommand string
  | SockConnect nat
  | SockData nat string
  | SockError nat string
  | SockClose nat

definition live :: "nat \<Rightarrow> module_instance \<Rightarrow> bool" where
  "live i w \<longleftrightarrow> i < length (sockets w) \<and> \<not> destroyed (sockets w ! i)"

definition live_sockets :: "module_instance \<Rightarrow> nat list" where
  "live_sockets w = filter (\<lambda>i. live i w) [0 ..< length (sockets w)]"

definition set_connected :: "nat \<Rightarrow> bool \<Rightarrow> module_instance \<Rightarrow> module_instance" where
  "set_connected i b w = w\<lparr> sockets := (sockets w)[i := (sockets w ! i)\<lparr> isConnected := b \<rparr>] \<rparr>"

fun step :: "module_instance \<Rightarrow> event \<Rightarrow> module_instance" where
  "step w (Init cfg) = init cfg w"
| "step w (ConfigUpdated cfg) = configUpdated cfg w"
| "step w Destroy = destroy w"
| "step w (SendCommand cmd) = sendCommand cmd w"
| "step w (SockConnect i) = (if live i w then on_connect (set_connected i True w) else w)"
| "step w (SockData i chunk) = (if live i w then on_data chunk w else w)"
| "step w (SockError i msg) = (if live i w then on_error msg (set_connected i False w) else w)"
| "step w (SockClose i) = (if live i w then on_close (set_connected i False w) else w)"

definition run :: "event list \<Rightarrow> module_instance \<Rightarrow> module_instance" where
  "run es w = foldl step w es"

text \<open>The mirrored session state: the two lists and the two mute maps.\<close>

definition session_state ::
  "module_instance \<Rightarrow> string list \<times> string list \<times> (string \<rightharpoonup> jsnum) \<times> (string \<rightharpoonup> jsnum)" where
  "session_state w =
     (virtualChannels w, presets w, channelMuteStatus w, crosspointMuteStatus w)"

text \<open>The effects an operation added to the trace.\<close>

definition new_effects :: "module_instance \<Rightarrow> module_instance \<Rightarrow> effect list" where
  "new_effects w w' = drop (length (trace w)) (trace w')"

text \<open>
  The socket field and the store agree: the live sockets are exactly the one the
  field refers to, if any.
\<close>

definition one_live :: "module_instance \<Rightarrow> bool" where
  "one_live w \<longleftrightarrow> (\<forall>i. live i w \<longleftrightarrow> socket w = Some i)"

text \<open>
  The first statement of \<^verbatim>\<open>connectToDevice\<close> and of \<^verbatim>\<open>destroy\<close>: a socket the field
  refers to is destroyed and the field set to \<^verbatim>\<open>null\<close>.
\<close>

definition closed_socket :: "module_instance \<Rightarrow> module_instance" where
  "closed_socket w =
     (case socket w of
        Some i \<Rightarrow> (socket_destroy i w)\<lparr> socket := None \<rparr>
      | None \<Rightarrow> w)"

text \<open>Inputs of the examples.\<close>

definition example_config :: module_config where
  "example_config = \<lparr> host = Some ''10.0.0.5'', port = Some ''23'' \<rparr>"

definition other_config :: module_config where
  "other_config = \<lparr> host = Some ''10.0.0.6'', port = Some ''23'' \<rparr>"

definition no_port_config :: module_config where
  "no_port_config = \<lparr> host = Some ''10.0.0.5'', port = None \<rparr>"

definition connected_instance :: module_instance where
  "connected_instance = run [Init example_config, SockConnect 0] new_instance"

definition mirrored_instance :: module_instance where
  \<open>mirrored_instance =
     run [SockData 0 ''virtual_channels=Ch1'', SockData 0 ''presets="P1"'',
          SockData 0 ''mute "A"=1'', SockData 0 ''crosspoint_mute "In1" "Out2"=1'']
       connected_instance\<close>

section \<open>Unfolding the primitives\<close>

lemmas str_defs =
  startsWith_def substring_def split_def trim_def strip_quotes_def js_whitespace_def
  to_str_def destructure2_def crlf_def

lemmas eff_defs =
  log_def emit_def updateActions_def checkFeedbacks_def updateStatus_def
  updateFeedbacks_def updateVariableDefinitions_def

lemmas model_defs =
  run_def init_def configUpdated_def destroy_def connectToDevice_def socket_destroy_def
  sendCommand_def requestDeviceConfiguration_def socket_connected_def
  on_connect_def on_data_def on_error_def on_close_def set_connected_def live_def
  live_sockets_def new_instance_def truthy_def session_state_def new_effects_def
  example_config_def other_config_def no_port_config_def connected_instance_def

lemmas decode_defs =
  processDeviceData_def mute_regex_def crosspoint_regex_def crosspoint_key_def obj_set_def
  parseInt10_def is_digit_def digits_value_def line_terminator_def

section \<open>One live socket: the invariant\<close>

lemma live_emit [simp]: "live i (emit e w) = live i w"
  by (simp add: live_def emit_def)

lemma socket_emit [simp]: "socket (emit e w) = socket w"
  by (simp add: emit_def)

lemma one_live_emit [simp]: "one_live (emit e w) = one_live w"
  by (simp add: one_live_def)

lemma one_live_new: "one_live new_instance"
  by (simp add: one_live_def live_def new_instance_def)

lemma one_live_sendCommand: "one_live (sendCommand cmd w) = one_live w"
  by (simp add: sendCommand_def log_def split: option.splits)

lemma one_live_config [simp]: "one_live (w\<lparr> config := c \<rparr>) = one_live w"
  by (simp add: one_live_def live_def)

lemma live_socket_destroy:
  "live k ((socket_destroy i w)\<lparr> socket := None \<rparr>) \<longleftrightarrow> live k w \<and> k \<noteq> i"
  by (cases "k = i") (simp_all add: live_def socket_destroy_def emit_def)

lemma socket_closed: "socket (closed_socket w) = None"
  by (simp add: closed_socket_def socket_destroy_def emit_def split: option.splits)

lemma dead_closed: "one_live w \<Longrightarrow> \<not> live k (closed_socket w)"
  by (cases "socket w") (simp_all add: closed_socket_def one_live_def live_socket_destroy)

lemma length_closed: "length (sockets (closed_socket w)) = length (sockets w)"
  by (simp add: closed_socket_def socket_destroy_def emit_def split: option.splits)

lemma connectToDevice_closed:
  "connectToDevice w =
     (let v = closed_socket w in
      if truthy (host (config v)) \<and> truthy (port (config v)) then
           emit (SocketCreate (length (sockets v)) (to_str (host (config v))) (to_str (port (config v))))
             (v\<lparr> socket := Some (length (sockets v)),
                 sockets := sockets v @
                   [\<lparr> target_host = to_str (host (config v)),
                      target_port = to_str (port (config v)),
                      destroyed = False, isConnected = False \<rparr>] \<rparr>)
         else v)"
  by (simp add: connectToDevice_def closed_socket_def)

lemma live_connectToDevice:
  assumes "one_live w"
  shows "live k (connectToDevice w) \<longleftrightarrow>
           truthy (host (config w)) \<and> truthy (port (config w)) \<and> k = length (sockets w)"
proof -
  have d: "\<not> live k (closed_socket w)" using assms by (rule dead_closed)
  have c: "config (closed_socket w) = config w"
    by (simp add: closed_socket_def socket_destroy_def emit_def split: option.splits)
  show ?thesis
  proof (cases "truthy (host (config w)) \<and> truthy (port (config w))")
    case False
    then have "connectToDevice w = closed_socket w"
      using c by (auto simp: connectToDevice_closed Let_def)
    then show ?thesis using d False by auto
  next
    case True
    then show ?thesis using d c
      by (cases "k < length (sockets w)")
         (auto simp: connectToDevice_closed Let_def live_def nth_append length_closed emit_def)
  qed
qed

lemma socket_connectToDevice:
  "socket (connectToDevice w) =
     (if truthy (host (config w)) \<and> truthy (port (config w)) then Some (length (sockets w)) else None)"
proof -
  have c: "config (closed_socket w) = config w"
    by (simp add: closed_socket_def socket_destroy_def emit_def split: option.splits)
  show ?thesis
    by (simp add: connectToDevice_closed Let_def c length_closed socket_closed emit_def)
qed

lemma one_live_connectToDevice: "one_live w \<Longrightarrow> one_live (connectToDevice w)"
  unfolding one_live_def [of "connectToDevice w"]
  by (auto simp: live_connectToDevice socket_connectToDevice)

lemma live_cong: "sockets w' = sockets w \<Longrightarrow> live i w' = live i w"
  by (simp add: live_def)

lemma one_live_cong:
  "sockets w' = sockets w \<Longrightarrow> socket w' = socket w \<Longrightarrow> one_live w' = one_live w"
  by (simp add: one_live_def live_def)

lemma sockets_processDeviceData: "sockets (processDeviceData d w) = sockets w"
  by (simp add: processDeviceData_def Let_def eff_defs split: prod.splits option.splits list.splits)

lemma socket_processDeviceData: "socket (processDeviceData d w) = socket w"
  by (simp add: processDeviceData_def Let_def eff_defs split: prod.splits option.splits list.splits)

lemma sockets_sendCommand: "sockets (sendCommand c w) = sockets w"
  by (simp add: sendCommand_def eff_defs split: option.splits)

lemma socket_sendCommand: "socket (sendCommand c w) = socket w"
  by (simp add: sendCommand_def eff_defs split: option.splits)

lemma destroyed_isConnected_update:
  "k < length xs \<Longrightarrow> destroyed (xs[i := (xs ! i)\<lparr> isConnected := b \<rparr>] ! k) = destroyed (xs ! k)"
  by (cases "i = k") simp_all

lemma live_set_connected: "live k (set_connected i b w) = live k w"
  by (auto simp: live_def set_connected_def destroyed_isConnected_update)

lemma socket_set_connected: "socket (set_connected i b w) = socket w"
  by (simp add: set_connected_def)

lemma one_live_set_connected: "one_live (set_connected i b w) = one_live w"
  by (simp add: one_live_def live_set_connected socket_set_connected)

lemma one_live_on_connect: "one_live (on_connect w) = one_live w"
  by (rule one_live_cong)
     (simp_all add: on_connect_def requestDeviceConfiguration_def sockets_sendCommand
        socket_sendCommand eff_defs)

lemma one_live_on_error: "one_live (on_error m w) = one_live w"
  by (rule one_live_cong) (simp_all add: on_error_def eff_defs)

lemma one_live_on_close: "one_live (on_close w) = one_live w"
  by (rule one_live_cong) (simp_all add: on_close_def eff_defs)

lemma one_live_on_data: "one_live (on_data d w) = one_live w"
  by (rule one_live_cong) (simp_all add: on_data_def sockets_processDeviceData socket_processDeviceData)

lemma destroy_closed: "destroy w = log Debug ''Module instance destroyed'' (closed_socket w)"
  by (simp add: destroy_def closed_socket_def)

lemma live_destroy: "one_live w \<Longrightarrow> \<not> live k (destroy w)"
  by (simp add: destroy_closed log_def dead_closed)

lemma socket_destroy_None: "socket (destroy w) = None"
  by (simp add: destroy_closed log_def socket_closed)

lemma one_live_destroy: "one_live w \<Longrightarrow> one_live (destroy w)"
  unfolding one_live_def [of "destroy w"]
  by (simp add: live_destroy socket_destroy_None)

lemma one_live_init: "one_live w \<Longrightarrow> one_live (init cfg w)"
  by (simp add: init_def updateVariableDefinitions_def updateFeedbacks_def updateActions_def
        updateStatus_def one_live_connectToDevice)

lemma one_live_configUpdated: "one_live w \<Longrightarrow> one_live (configUpdated cfg w)"
  by (simp add: configUpdated_def one_live_connectToDevice)

lemma one_live_step: "one_live w \<Longrightarrow> one_live (step w e)"
  by (cases e)
     (simp_all add: one_live_init one_live_configUpdated one_live_destroy one_live_sendCommand
        one_live_on_connect one_live_on_data one_live_on_error one_live_on_close
        one_live_set_connected)

lemma one_live_foldl: "one_live w \<Longrightarrow> one_live (foldl step w es)"
  by (induction es arbitrary: w) (simp_all add: one_live_step)

lemma one_live_run: "one_live (run es new_instance)"
  by (simp add: run_def one_live_foldl one_live_new)

lemma filter_eq_upt: "filter (\<lambda>i. i = k) [0 ..< n] = (if k < n then [k] else [])"
  by (induction n) auto

lemma live_sockets_one_live:
  assumes "one_live w"
  shows "live_sockets w = (case socket w of None \<Rightarrow> [] | Some i \<Rightarrow> [i])"
proof (cases "socket w")
  case None
  then have "\<And>i. \<not> live i w" using assms by (simp add: one_live_def)
  then show ?thesis using None by (simp add: live_sockets_def)
next
  case (Some k)
  then have l: "\<And>i. live i w \<longleftrightarrow> i = k" using assms by (auto simp: one_live_def)
  then have "live k w" by simp
  then have "k < length (sockets w)" by (simp add: live_def)
  then show ?thesis using Some l by (simp add: live_sockets_def filter_eq_upt)
qed

section \<open>What connecting changes\<close>

lemma trace_connectToDevice:
  "trace (connectToDevice w) =
     trace w @ (case socket w of None \<Rightarrow> [] | Some i \<Rightarrow> [SocketDestroy i]) @
     (if truthy (host (config w)) \<and> truthy (port (config w))
      then [SocketCreate (length (sockets w)) (to_str (host (config w))) (to_str (port (config w)))]
      else [])"
  by (simp add: connectToDevice_def Let_def socket_destroy_def emit_def split: option.splits)

lemma session_state_connectToDevice: "session_state (connectToDevice w) = session_state w"
  by (simp add: connectToDevice_def Let_def socket_destroy_def emit_def session_state_def
        split: option.splits)

lemma config_connectToDevice: "config (connectToDevice w) = config w"
  by (simp add: connectToDevice_def Let_def socket_destroy_def emit_def split: option.splits)

lemma length_sockets_connectToDevice:
  "length (sockets (connectToDevice w)) =
     (if truthy (host (config w)) \<and> truthy (port (config w))
      then Suc (length (sockets w)) else length (sockets w))"
  by (simp add: connectToDevice_def Let_def socket_destroy_def emit_def split: option.splits)

section \<open>Splitting a line at the equals sign\<close>

lemma split_from_first:
  "\<exists>rest. split_from sep cur s = (rev cur @ takeWhile (\<lambda>c. c \<noteq> sep) s) # rest"
proof (induction s arbitrary: cur)
  case Nil
  show ?case by simp
next
  case (Cons a s)
  show ?case
  proof (cases "a = sep")
    case True
    then show ?thesis by simp
  next
    case False
    obtain rest where "split_from sep (a # cur) s =
        (rev (a # cur) @ takeWhile (\<lambda>c. c \<noteq> sep) s) # rest"
      using Cons.IH [of "a # cur"] by blast
    then show ?thesis using False by simp
  qed
qed

lemma info_of_split:
  "fst (destructure2 (split sep s)) = Some (takeWhile (\<lambda>c. c \<noteq> sep) s)"
proof -
  obtain rest where "split sep s = takeWhile (\<lambda>c. c \<noteq> sep) s # rest"
    using split_from_first [of sep "[]" s] by (auto simp: split_def)
  then show ?thesis by (cases rest) (simp_all add: destructure2_def)
qed

lemma startsWith_same_head:
  "startsWith s (a # p) \<Longrightarrow> startsWith s (b # q) \<Longrightarrow> a = b"
  by (cases s) (simp_all add: startsWith_def)

lemma mute_not_list_reply:
  assumes "startsWith line ''mute ''"
  shows "\<not> startsWith line ''virtual_channels=''" and "\<not> startsWith line ''presets=''"
  using assms startsWith_same_head [of line "CHR ''m''" "''ute ''"] by fastforce+

section \<open>What the patterns match\<close>

text \<open>
  The matcher, characterised without its backtracking: a group matches any run of
  characters without a line terminator, and \<^verbatim>\<open>exec\<close> succeeds when the pattern matches
  at some position. For \<^verbatim>\<open>/mute "(.*)"/\<close> this is: the string contains \<^verbatim>\<open>mute "\<close> and,
  later and before any line terminator, another double quote.
\<close>

lemma match_here_lits:
  "match_here (map Lit l @ p) s \<noteq> None \<longleftrightarrow> (\<exists>r. s = l @ r \<and> match_here p r \<noteq> None)"
proof (induction l arbitrary: s)
  case Nil
  show ?case by simp
next
  case step: (Cons a l)
  show ?case
  proof (cases s)
    case Nil
    then show ?thesis by simp
  next
    case (Cons x xs)
    have "match_here (map Lit (a # l) @ p) (x # xs) \<noteq> None \<longleftrightarrow>
            x = a \<and> match_here (map Lit l @ p) xs \<noteq> None"
      by simp
    also have "\<dots> \<longleftrightarrow> x = a \<and> (\<exists>r. xs = l @ r \<and> match_here p r \<noteq> None)"
      by (simp only: step.IH)
    also have "\<dots> \<longleftrightarrow> (\<exists>r. x # xs = (a # l) @ r \<and> match_here p r \<noteq> None)"
      by auto
    finally show ?thesis using Cons by simp
  qed
qed

lemma match_here_group_nonempty: "match_here (Group # p) s = Some gs \<Longrightarrow> gs \<noteq> []"
  by (induction s arbitrary: gs) (auto split: if_splits option.splits list.splits)

lemma match_here_group_step:
  "match_here (Group # p) (x # xs) \<noteq> None \<longleftrightarrow>
     match_here p (x # xs) \<noteq> None \<or>
     (\<not> line_terminator x \<and> match_here (Group # p) xs \<noteq> None)"
proof (cases "match_here (Group # p) xs")
  case None
  then show ?thesis by simp
next
  case (Some gs)
  then have "gs \<noteq> []" by (rule match_here_group_nonempty)
  then obtain g gs' where "gs = g # gs'" by (cases gs) auto
  then show ?thesis using Some by simp
qed

lemma match_here_group_iff:
  "match_here (Group # p) s \<noteq> None \<longleftrightarrow>
     (\<exists>g r. s = g @ r \<and> (\<forall>c\<in>set g. \<not> line_terminator c) \<and> match_here p r \<noteq> None)"
proof (induction s)
  case Nil
  show ?case by simp
next
  case (Cons x xs)
  show ?case
  proof
    assume "match_here (Group # p) (x # xs) \<noteq> None"
    then consider "match_here p (x # xs) \<noteq> None"
      | "\<not> line_terminator x" "match_here (Group # p) xs \<noteq> None"
      by (auto simp only: match_here_group_step)
    then show "\<exists>g r. x # xs = g @ r \<and> (\<forall>c\<in>set g. \<not> line_terminator c) \<and> match_here p r \<noteq> None"
    proof cases
      case 1
      then have "x # xs = [] @ (x # xs) \<and> (\<forall>c\<in>set []. \<not> line_terminator c) \<and> match_here p (x # xs) \<noteq> None"
        by simp
      then show ?thesis by blast
    next
      case 2
      then obtain g r where "xs = g @ r" "\<forall>c\<in>set g. \<not> line_terminator c" "match_here p r \<noteq> None"
        using Cons.IH by blast
      then have "x # xs = (x # g) @ r \<and> (\<forall>c\<in>set (x # g). \<not> line_terminator c) \<and> match_here p r \<noteq> None"
        using 2(1) by simp
      then show ?thesis by blast
    qed
  next
    assume "\<exists>g r. x # xs = g @ r \<and> (\<forall>c\<in>set g. \<not> line_terminator c) \<and> match_here p r \<noteq> None"
    then obtain g r where e: "x # xs = g @ r" and l: "\<forall>c\<in>set g. \<not> line_terminator c"
      and m: "match_here p r \<noteq> None" by blast
    show "match_here (Group # p) (x # xs) \<noteq> None"
    proof (cases g)
      case Nil
      then have "match_here p (x # xs) \<noteq> None" using e m by simp
      then show ?thesis unfolding match_here_group_step by blast
    next
      case (Cons y g')
      then have "xs = g' @ r" "\<not> line_terminator x" "\<forall>c\<in>set g'. \<not> line_terminator c"
        using e l by auto
      then have "match_here (Group # p) xs \<noteq> None" "\<not> line_terminator x"
        using m Cons.IH by blast+
      then show ?thesis unfolding match_here_group_step by blast
    qed
  qed
qed

lemma regex_exec_iff:
  "regex_exec p s \<noteq> None \<longleftrightarrow> (\<exists>a r. s = a @ r \<and> match_here p r \<noteq> None)"
proof (induction s)
  case Nil
  show ?case by simp
next
  case (Cons x xs)
  have "regex_exec p (x # xs) \<noteq> None \<longleftrightarrow>
          match_here p (x # xs) \<noteq> None \<or> regex_exec p xs \<noteq> None"
    by (simp split: option.splits)
  also have "\<dots> \<longleftrightarrow> match_here p (x # xs) \<noteq> None \<or> (\<exists>a r. xs = a @ r \<and> match_here p r \<noteq> None)"
    by (simp only: Cons.IH)
  also have "\<dots> \<longleftrightarrow> (\<exists>a r. x # xs = a @ r \<and> match_here p r \<noteq> None)"
  proof
    assume "match_here p (x # xs) \<noteq> None \<or> (\<exists>a r. xs = a @ r \<and> match_here p r \<noteq> None)"
    then show "\<exists>a r. x # xs = a @ r \<and> match_here p r \<noteq> None"
    proof
      assume "match_here p (x # xs) \<noteq> None"
      then have "x # xs = [] @ (x # xs) \<and> match_here p (x # xs) \<noteq> None" by simp
      then show ?thesis by blast
    next
      assume "\<exists>a r. xs = a @ r \<and> match_here p r \<noteq> None"
      then obtain a r where "xs = a @ r" "match_here p r \<noteq> None" by blast
      then have "x # xs = (x # a) @ r \<and> match_here p r \<noteq> None" by simp
      then show ?thesis by blast
    qed
  next
    assume "\<exists>a r. x # xs = a @ r \<and> match_here p r \<noteq> None"
    then obtain a r where e: "x # xs = a @ r" and m: "match_here p r \<noteq> None" by blast
    show "match_here p (x # xs) \<noteq> None \<or> (\<exists>a r. xs = a @ r \<and> match_here p r \<noteq> None)"
    proof (cases a)
      case Nil
      then show ?thesis using e m by simp
    next
      case (Cons y a')
      then have "xs = a' @ r" using e by simp
      then show ?thesis using m by blast
    qed
  qed
  finally show ?case .
qed

lemma match_here_quote_iff:
  "match_here [Lit q] r \<noteq> None \<longleftrightarrow> (\<exists>b. r = q # b)"
  by (cases r) auto

lemma match_here_mute_iff:
  \<open>match_here mute_regex r \<noteq> None \<longleftrightarrow>
     (\<exists>g b. r = ''mute "'' @ g @ ''"'' @ b \<and> (\<forall>c\<in>set g. \<not> line_terminator c))\<close>
proof -
  have \<open>match_here mute_regex r \<noteq> None \<longleftrightarrow>
          (\<exists>t. r = ''mute "'' @ t \<and> match_here [Group, Lit (CHR 0x22)] t \<noteq> None)\<close>
    using match_here_lits [of \<open>''mute "''\<close> "[Group, Lit (CHR 0x22)]" r]
    by (simp add: mute_regex_def)
  also have \<open>\<dots> \<longleftrightarrow> (\<exists>t. r = ''mute "'' @ t \<and>
      (\<exists>g u. t = g @ u \<and> (\<forall>c\<in>set g. \<not> line_terminator c) \<and> (\<exists>b. u = CHR 0x22 # b)))\<close>
    by (simp only: match_here_group_iff match_here_quote_iff)
  also have \<open>\<dots> \<longleftrightarrow> (\<exists>g b. r = ''mute "'' @ g @ ''"'' @ b \<and> (\<forall>c\<in>set g. \<not> line_terminator c))\<close>
    by auto
  finally show ?thesis .
qed

lemma mute_regex_no_match_iff:
  \<open>regex_exec mute_regex s = None \<longleftrightarrow>
     \<not> (\<exists>a g b. s = a @ ''mute "'' @ g @ ''"'' @ b \<and> (\<forall>c\<in>set g. \<not> line_terminator c))\<close>
proof -
  have \<open>regex_exec mute_regex s \<noteq> None \<longleftrightarrow>
     (\<exists>a g b. s = a @ ''mute "'' @ g @ ''"'' @ b \<and> (\<forall>c\<in>set g. \<not> line_terminator c))\<close>
    by (simp only: regex_exec_iff match_here_mute_iff) blast
  then show ?thesis by blast
qed

section \<open>Data events and teardown\<close>

lemma live_processDeviceData: "live i (processDeviceData c w) = live i w"
  by (rule live_cong) (rule sockets_processDeviceData)

lemma run_data_chunks:
  "live i w \<Longrightarrow> run (map (SockData i) chunks) w = foldl (\<lambda>v c. processDeviceData c v) w chunks"
  unfolding run_def
  by (induction chunks arbitrary: w) (simp_all add: on_data_def live_processDeviceData)

lemma unrecognised_chunk:
  assumes "\<not> startsWith c ''virtual_channels=''" "\<not> startsWith c ''presets=''"
          "\<not> startsWith c ''mute ''" "\<not> startsWith c ''crosspoint_mute ''"
  shows "processDeviceData c v = v\<lparr> trace := trace v @ [Log Debug (''Data received: '' @ c)] \<rparr>"
  using assms by (simp add: processDeviceData_def eff_defs)

lemma session_state_destroy: "session_state (destroy w) = session_state w"
  by (simp add: destroy_def session_state_def socket_destroy_def eff_defs split: option.splits)

lemma config_destroy: "config (destroy w) = config w"
  by (simp add: destroy_def socket_destroy_def eff_defs split: option.splits)

lemma trace_destroy:
  "trace (destroy w) = trace w @ (case socket w of None \<Rightarrow> [] | Some i \<Rightarrow> [SocketDestroy i]) @
     [Log Debug ''Module instance destroyed'']"
  by (simp add: destroy_def socket_destroy_def eff_defs split: option.splits)

lemma length_sockets_destroy: "length (sockets (destroy w)) = length (sockets w)"
  by (simp add: destroy_def socket_destroy_def eff_defs split: option.splits)


section \<open>Chunked delivery\<close>

text \<open>
  C1, as amended. The data handler passes each chunk, whole and once, to the
  decoder as if it were one line: the instance has no line buffer, nothing is
  split on newline and nothing is kept for the next chunk. So for every sequence
  of chunks from the live socket the state is the fold of \<^verbatim>\<open>processDeviceData\<close> over
  the chunks; a chunk that starts with none of the four prefixes changes no
  session state; and the chunks \<^verbatim>\<open>mute "A"=1\r\nmute "B"\<close> and \<^verbatim>\<open>=0\r\n\<close> yield the one
  mute update A=1, the entry of B being what it was.
\<close>

theorem chunks_decoded_one_by_one:
  assumes "live i w"
  shows \<open>run (map (SockData i) chunks) w = foldl (\<lambda>v c. processDeviceData c v) w chunks
     \<and> (\<forall>c v. \<not> startsWith c ''virtual_channels='' \<and> \<not> startsWith c ''presets='' \<and>
              \<not> startsWith c ''mute '' \<and> \<not> startsWith c ''crosspoint_mute '' \<longrightarrow>
              session_state (processDeviceData c v) = session_state v)
     \<and> channelMuteStatus
         (run (map (SockData i) [''mute "A"=1'' @ crlf @ ''mute "B"'', ''=0'' @ crlf]) w) =
       (channelMuteStatus w)(''A'' \<mapsto> Number 1)\<close>
proof -
  have a: "\<And>chunks. run (map (SockData i) chunks) w = foldl (\<lambda>v c. processDeviceData c v) w chunks"
    using assms by (rule run_data_chunks)
  have b: "\<forall>c v. \<not> startsWith c ''virtual_channels='' \<and> \<not> startsWith c ''presets='' \<and>
              \<not> startsWith c ''mute '' \<and> \<not> startsWith c ''crosspoint_mute '' \<longrightarrow>
              session_state (processDeviceData c v) = session_state v"
    by (simp add: unrecognised_chunk session_state_def)
  have c: \<open>channelMuteStatus
         (run (map (SockData i) [''mute "A"=1'' @ crlf @ ''mute "B"'', ''=0'' @ crlf]) w) =
       (channelMuteStatus w)(''A'' \<mapsto> Number 1)\<close>
    unfolding a by (simp add: decode_defs str_defs eff_defs)
  from a b c show ?thesis by simp
qed

theorem chunks_decoded_one_by_one_witness:
  \<open>live 0 connected_instance
   \<and> \<not> startsWith (''=0'' @ crlf) ''virtual_channels='' \<and> \<not> startsWith (''=0'' @ crlf) ''presets=''
   \<and> \<not> startsWith (''=0'' @ crlf) ''mute '' \<and> \<not> startsWith (''=0'' @ crlf) ''crosspoint_mute ''
   \<and> session_state (processDeviceData (''=0'' @ crlf) connected_instance) =
       session_state connected_instance
   \<and> channelMuteStatus
        (run (map (SockData 0) [''mute "A"=1'' @ crlf @ ''mute "B"'', ''=0'' @ crlf])
           connected_instance) ''A'' = Some (Number 1)
   \<and> channelMuteStatus
        (run (map (SockData 0) [''mute "A"=1'' @ crlf @ ''mute "B"'', ''=0'' @ crlf])
           connected_instance) ''B'' = None\<close>
proof -
  have l: "live 0 connected_instance" by (simp add: model_defs eff_defs to_str_def)
  have p: "\<not> startsWith (''=0'' @ crlf) ''virtual_channels='' \<and> \<not> startsWith (''=0'' @ crlf) ''presets=''
   \<and> \<not> startsWith (''=0'' @ crlf) ''mute '' \<and> \<not> startsWith (''=0'' @ crlf) ''crosspoint_mute ''"
    by (simp add: startsWith_def crlf_def)
  have e: "channelMuteStatus connected_instance = Map.empty"
    by (simp add: model_defs eff_defs to_str_def)
  note t = chunks_decoded_one_by_one [OF l, of "[]"]
  from t p have "session_state (processDeviceData (''=0'' @ crlf) connected_instance) =
       session_state connected_instance" by blast
  moreover from t have \<open>channelMuteStatus
        (run (map (SockData 0) [''mute "A"=1'' @ crlf @ ''mute "B"'', ''=0'' @ crlf])
           connected_instance) = Map.empty(''A'' \<mapsto> Number 1)\<close>
    by (simp only: e)
  ultimately show ?thesis using l p by simp
qed

text \<open>
  C1 as stated fails: after the two chunks of its example, delivered to a connected
  instance, the channel mute map holds A=1 and has no entry for B.
\<close>

theorem chunked_delivery_counterexample:
  \<open>channelMuteStatus
      (run [SockData 0 (''mute "A"=1'' @ crlf @ ''mute "B"''), SockData 0 (''=0'' @ crlf)]
         connected_instance) ''A'' = Some (Number 1)
   \<and> channelMuteStatus
      (run [SockData 0 (''mute "A"=1'' @ crlf @ ''mute "B"''), SockData 0 (''=0'' @ crlf)]
         connected_instance) ''B'' = None\<close>
  by (simp add: model_defs decode_defs str_defs eff_defs)

section \<open>Mute lines that do not match\<close>

text \<open>
  C2, as amended. For every line that starts with \<^verbatim>\<open>mute \<close> and whose text before the
  first equals sign does not contain \<^verbatim>\<open>mute "\<close> followed, before any line terminator,
  by another double quote (for example a line with no quoted channel name),
  decoding is a no-op: only the debug log of the line is added, the channel mute
  map and all other session state are unchanged, and no error is raised.
\<close>

theorem mute_mismatch_is_noop:
  assumes \<open>startsWith line ''mute ''\<close>
      and \<open>\<not> (\<exists>a g b. takeWhile (\<lambda>c. c \<noteq> CHR ''='') line = a @ ''mute "'' @ g @ ''"'' @ b
                   \<and> (\<forall>c\<in>set g. \<not> line_terminator c))\<close>
  shows \<open>processDeviceData line w =
           w\<lparr> trace := trace w @ [Log Debug (''Data received: '' @ line)] \<rparr>\<close>
proof -
  obtain info val where d: "destructure2 (split CHR ''='' line) = (info, val)"
    by (cases "destructure2 (split CHR ''='' line)")
  then have "info = Some (takeWhile (\<lambda>c. c \<noteq> CHR ''='') line)"
    using info_of_split [of "CHR ''=''" line] by simp
  then have "to_str info = takeWhile (\<lambda>c. c \<noteq> CHR ''='') line"
    by (simp add: to_str_def)
  then have r: "regex_exec mute_regex (to_str info) = None"
    using assms(2) unfolding mute_regex_no_match_iff by simp
  show ?thesis
    using assms(1) mute_not_list_reply [OF assms(1)] d r
    by (simp add: processDeviceData_def eff_defs)
qed

theorem mute_mismatch_is_noop_witness:
  \<open>startsWith ''mute A=1'' ''mute ''
   \<and> \<not> (\<exists>a g b. takeWhile (\<lambda>c. c \<noteq> CHR ''='') ''mute A=1'' = a @ ''mute "'' @ g @ ''"'' @ b
                   \<and> (\<forall>c\<in>set g. \<not> line_terminator c))
   \<and> processDeviceData ''mute A=1'' new_instance =
       new_instance\<lparr> trace := [Log Debug ''Data received: mute A=1''] \<rparr>\<close>
proof -
  have a: \<open>startsWith ''mute A=1'' ''mute ''\<close> by (simp add: startsWith_def)
  have \<open>regex_exec mute_regex (takeWhile (\<lambda>c. c \<noteq> CHR ''='') ''mute A=1'') = None\<close>
    by (simp add: mute_regex_def)
  then have b: \<open>\<not> (\<exists>a g b. takeWhile (\<lambda>c. c \<noteq> CHR ''='') ''mute A=1'' = a @ ''mute "'' @ g @ ''"'' @ b
                   \<and> (\<forall>c\<in>set g. \<not> line_terminator c))\<close>
    unfolding mute_regex_no_match_iff .
  have t: "trace new_instance = []" by (simp add: new_instance_def)
  from mute_mismatch_is_noop [OF a b, of new_instance] a b t show ?thesis by simp
qed

text \<open>
  C2 as stated fails: the line \<^verbatim>\<open>mute "A"\<close> starts with \<^verbatim>\<open>mute \<close> and has no equals sign,
  and decoding it stores \<^verbatim>\<open>NaN\<close> for the channel A.
\<close>

theorem mute_without_value_counterexample:
  \<open>startsWith ''mute "A"'' ''mute '' \<and> CHR ''='' \<notin> set ''mute "A"''
   \<and> channelMuteStatus new_instance ''A'' = None
   \<and> channelMuteStatus (processDeviceData ''mute "A"'' new_instance) ''A'' = Some NaN\<close>
  by (simp add: model_defs decode_defs str_defs eff_defs)

section \<open>One live socket\<close>

text \<open>
  C3. In every state the instance reaches from its construction, by any sequence
  of host calls, commands and socket events, at most one socket is live, and it is
  the one the field \<open>socket\<close> refers to. \<^verbatim>\<open>configUpdated\<close> and \<^verbatim>\<open>init\<close> destroy the socket
  they find before they create the new one (\<^verbatim>\<open>SocketDestroy\<close> precedes \<^verbatim>\<open>SocketCreate\<close> in
  the trace), so that afterwards the only live socket, if any, is the new one: no
  two sockets can both deliver events.
\<close>

theorem at_most_one_live_socket:
  assumes "w = run es new_instance"
  shows "live_sockets w = (case socket w of None \<Rightarrow> [] | Some i \<Rightarrow> [i])
       \<and> length (live_sockets w) \<le> 1
       \<and> live_sockets (configUpdated cfg w) =
           (if truthy (host cfg) \<and> truthy (port cfg) then [length (sockets w)] else [])
       \<and> live_sockets (init cfg w) =
           (if truthy (host cfg) \<and> truthy (port cfg) then [length (sockets w)] else [])
       \<and> new_effects w (configUpdated cfg w) =
           (case socket w of None \<Rightarrow> [] | Some i \<Rightarrow> [SocketDestroy i]) @
           (if truthy (host cfg) \<and> truthy (port cfg)
            then [SocketCreate (length (sockets w)) (to_str (host cfg)) (to_str (port cfg))]
            else [])"
proof -
  have inv: "one_live w" using assms by (simp add: one_live_run)
  have a: "live_sockets w = (case socket w of None \<Rightarrow> [] | Some i \<Rightarrow> [i])"
    using inv by (rule live_sockets_one_live)
  have b: "length (live_sockets w) \<le> 1"
    by (simp add: a split: option.splits)
  have "one_live (configUpdated cfg w)" using inv by (rule one_live_configUpdated)
  then have c: "live_sockets (configUpdated cfg w) =
           (if truthy (host cfg) \<and> truthy (port cfg) then [length (sockets w)] else [])"
    by (simp add: live_sockets_one_live) (simp add: configUpdated_def socket_connectToDevice)
  have "one_live (init cfg w)" using inv by (rule one_live_init)
  then have d: "live_sockets (init cfg w) =
           (if truthy (host cfg) \<and> truthy (port cfg) then [length (sockets w)] else [])"
    by (simp add: live_sockets_one_live)
       (simp add: init_def eff_defs socket_connectToDevice)
  have e: "new_effects w (configUpdated cfg w) =
           (case socket w of None \<Rightarrow> [] | Some i \<Rightarrow> [SocketDestroy i]) @
           (if truthy (host cfg) \<and> truthy (port cfg)
            then [SocketCreate (length (sockets w)) (to_str (host cfg)) (to_str (port cfg))]
            else [])"
    by (simp add: new_effects_def configUpdated_def trace_connectToDevice)
  from a b c d e show ?thesis by simp
qed

theorem at_most_one_live_socket_witness:
  "live_sockets (run [Init example_config, SockConnect 0, ConfigUpdated other_config] new_instance) = [1]
   \<and> live_sockets (configUpdated example_config
         (run [Init example_config, SockConnect 0, ConfigUpdated other_config] new_instance)) = [2]
   \<and> new_effects (run [Init example_config, SockConnect 0, ConfigUpdated other_config] new_instance)
         (configUpdated example_config
           (run [Init example_config, SockConnect 0, ConfigUpdated other_config] new_instance)) =
       [SocketDestroy 1, SocketCreate 2 ''10.0.0.5'' ''23'']"
proof -
  let ?w = "run [Init example_config, SockConnect 0, ConfigUpdated other_config] new_instance"
  note t = at_most_one_live_socket [OF refl, of "[Init example_config, SockConnect 0, ConfigUpdated other_config]" example_config]
  have s: "socket ?w = Some 1" by (simp add: model_defs eff_defs to_str_def)
  have n: "length (sockets ?w) = 2" by (simp add: model_defs eff_defs to_str_def)
  have c: "truthy (host example_config) \<and> truthy (port example_config)"
    by (simp add: truthy_def example_config_def)
  have h: "to_str (host example_config) = ''10.0.0.5''" "to_str (port example_config) = ''23''"
    by (simp_all add: to_str_def example_config_def)
  from t show ?thesis by (simp add: s n c h)
qed

section \<open>Sending a command without a connection\<close>

text \<open>
  C4. For every command, \<^verbatim>\<open>sendCommand\<close> on an instance with no socket, or with a
  socket that does not read as connected, only logs the error
  \<^verbatim>\<open>Socket not connected\<close>: nothing is sent or kept for later, the function has no
  other result, and the channel list, the preset list and both mute maps are as
  before.
\<close>

theorem send_when_not_connected:
  assumes "\<not> socket_connected w"
  shows "sendCommand cmd w = w\<lparr> trace := trace w @ [Log LogError ''Socket not connected''] \<rparr>
         \<and> session_state (sendCommand cmd w) = session_state w"
  using assms by (simp add: sendCommand_def eff_defs session_state_def split: option.splits)

theorem send_when_not_connected_witness:
  "\<not> socket_connected new_instance
   \<and> trace (sendCommand ''get presets'' new_instance) = [Log LogError ''Socket not connected'']
   \<and> \<not> socket_connected (run [Init example_config] new_instance)
   \<and> socket (run [Init example_config] new_instance) = Some 0
   \<and> new_effects (run [Init example_config] new_instance)
        (sendCommand ''get presets'' (run [Init example_config] new_instance)) =
       [Log LogError ''Socket not connected'']"
proof -
  let ?w = "run [Init example_config] new_instance"
  have a: "\<not> socket_connected new_instance"
    by (simp add: socket_connected_def new_instance_def)
  have b: "\<not> socket_connected ?w" by (simp add: model_defs eff_defs to_str_def)
  have s: "socket ?w = Some 0" by (simp add: model_defs eff_defs to_str_def)
  note ta = send_when_not_connected [OF a, of "''get presets''"]
  note tb = send_when_not_connected [OF b, of "''get presets''"]
  have "trace (sendCommand ''get presets'' new_instance) = [Log LogError ''Socket not connected'']"
    using ta by (simp add: new_instance_def)
  moreover have "new_effects ?w (sendCommand ''get presets'' ?w) =
       [Log LogError ''Socket not connected'']"
    using tb by (simp add: new_effects_def)
  ultimately show ?thesis using a b s by simp
qed

section \<open>The startup queries\<close>

text \<open>
  C5. In every reachable state, when a live socket emits \<^verbatim>\<open>connect\<close> (the transport
  reporting it connected), the instance reports the status Ok, logs the
  connection, and sends exactly \<^verbatim>\<open>get virtual_channels\<close> and \<^verbatim>\<open>get presets\<close>, each
  followed by the two bytes CR (0x0D) and LF (0x0A), on that socket, in this
  order.
\<close>

theorem connect_sends_startup_queries:
  assumes "w = run es new_instance" and "live i w"
  shows "step w (SockConnect i) =
     (set_connected i True w)\<lparr> trace := trace w @
        [UpdateStatus Ok None,
         Log Info (''Connected to SoundStructure at '' @ to_str (host (config w)) @ '':''
                    @ to_str (port (config w))),
         SocketSend i (''get virtual_channels'' @ [CHR 0x0D, CHR 0x0A]),
         Log Debug ''Command sent: get virtual_channels'',
         SocketSend i (''get presets'' @ [CHR 0x0D, CHR 0x0A]),
         Log Debug ''Command sent: get presets''] \<rparr>"
proof -
  have inv: "one_live w" using assms(1) by (simp add: one_live_run)
  then have s: "socket w = Some i" using assms(2) by (simp add: one_live_def)
  have n: "i < length (sockets w)" using assms(2) by (simp add: live_def)
  show ?thesis
    using assms(2) s n
    by (simp add: on_connect_def requestDeviceConfiguration_def sendCommand_def
          socket_connected_def set_connected_def eff_defs crlf_def)
qed

theorem connect_sends_startup_queries_witness:
  "live 0 (run [Init example_config] new_instance)
   \<and> new_effects (run [Init example_config] new_instance)
        (step (run [Init example_config] new_instance) (SockConnect 0)) =
       [UpdateStatus Ok None,
        Log Info ''Connected to SoundStructure at 10.0.0.5:23'',
        SocketSend 0 (''get virtual_channels'' @ [CHR 0x0D, CHR 0x0A]),
        Log Debug ''Command sent: get virtual_channels'',
        SocketSend 0 (''get presets'' @ [CHR 0x0D, CHR 0x0A]),
        Log Debug ''Command sent: get presets'']"
proof -
  let ?w = "run [Init example_config] new_instance"
  have l: "live 0 ?w" by (simp add: model_defs eff_defs to_str_def)
  have c: "config ?w = example_config" by (simp add: model_defs eff_defs to_str_def)
  note t = connect_sends_startup_queries [OF refl l]
  have "new_effects ?w (step ?w (SockConnect 0)) =
       [UpdateStatus Ok None,
        Log Info ''Connected to SoundStructure at 10.0.0.5:23'',
        SocketSend 0 (''get virtual_channels'' @ [CHR 0x0D, CHR 0x0A]),
        Log Debug ''Command sent: get virtual_channels'',
        SocketSend 0 (''get presets'' @ [CHR 0x0D, CHR 0x0A]),
        Log Debug ''Command sent: get presets'']"
    unfolding t by (simp add: new_effects_def c) (simp add: example_config_def to_str_def)
  then show ?thesis using l by simp
qed

section \<open>Decoding the two list replies\<close>

text \<open>
  C6. Decoding the line \<^verbatim>\<open>virtual_channels=Ch1,Ch2, Ch3\<close> replaces the channel list,
  whatever it was, by Ch1, Ch2, Ch3 (split on commas, each entry trimmed), and
  decoding \<^verbatim>\<open>presets="Preset A","Preset B"\<close> replaces the preset list by Preset A,
  Preset B (double quotes removed, entries trimmed). Nothing else of the instance
  changes but the trace, which gains the debug log of the line and one rebuild of
  the action definitions.
\<close>

theorem decode_list_replies:
  \<open>processDeviceData ''virtual_channels=Ch1,Ch2, Ch3'' w =
     w\<lparr> virtualChannels := [''Ch1'', ''Ch2'', ''Ch3''],
        trace := trace w @
          [Log Debug ''Data received: virtual_channels=Ch1,Ch2, Ch3'', UpdateActions] \<rparr>
   \<and> processDeviceData ''presets="Preset A","Preset B"'' w =
     w\<lparr> presets := [''Preset A'', ''Preset B''],
        trace := trace w @
          [Log Debug ''Data received: presets="Preset A","Preset B"'', UpdateActions] \<rparr>\<close>
  by (simp add: processDeviceData_def str_defs eff_defs)

section \<open>Teardown\<close>

text \<open>
  C7, as amended. In every reachable state, \<^verbatim>\<open>destroy\<close> closes the socket if one is
  present, sets the socket field to \<^verbatim>\<open>null\<close> and logs; afterwards no socket is live
  and no socket event is handled any more. The channel list, the preset list,
  both mute maps and the configuration are kept as they are, and a later
  \<^verbatim>\<open>configUpdated\<close> with a host and a port opens a new socket.
\<close>

theorem destroy_closes_socket_keeps_state:
  assumes "w = run es new_instance"
  shows "socket (destroy w) = None \<and> live_sockets (destroy w) = []
     \<and> new_effects w (destroy w) =
         (case socket w of None \<Rightarrow> [] | Some i \<Rightarrow> [SocketDestroy i]) @
         [Log Debug ''Module instance destroyed'']
     \<and> session_state (destroy w) = session_state w \<and> config (destroy w) = config w
     \<and> step (destroy w) (SockConnect i) = destroy w
     \<and> step (destroy w) (SockData i chunk) = destroy w
     \<and> step (destroy w) (SockError i msg) = destroy w
     \<and> step (destroy w) (SockClose i) = destroy w
     \<and> live_sockets (step (destroy w) (ConfigUpdated cfg)) =
         (if truthy (host cfg) \<and> truthy (port cfg) then [length (sockets w)] else [])"
proof -
  have inv: "one_live w" using assms by (simp add: one_live_run)
  then have d: "one_live (destroy w)" by (rule one_live_destroy)
  have dead: "\<And>k. \<not> live k (destroy w)" using inv by (rule live_destroy)
  have a: "live_sockets (destroy w) = []"
    by (simp add: live_sockets_one_live [OF d] socket_destroy_None)
  have "one_live (configUpdated cfg (destroy w))" using d by (rule one_live_configUpdated)
  then have c: "live_sockets (step (destroy w) (ConfigUpdated cfg)) =
         (if truthy (host cfg) \<and> truthy (port cfg) then [length (sockets w)] else [])"
    by (simp add: live_sockets_one_live)
       (simp add: configUpdated_def socket_connectToDevice length_sockets_destroy)
  show ?thesis
    using a c dead
    by (simp add: socket_destroy_None session_state_destroy config_destroy new_effects_def
          trace_destroy)
qed

theorem destroy_closes_socket_keeps_state_witness:
  \<open>socket mirrored_instance = Some 0
   \<and> socket (destroy mirrored_instance) = None \<and> live_sockets (destroy mirrored_instance) = []
   \<and> new_effects mirrored_instance (destroy mirrored_instance) =
       [SocketDestroy 0, Log Debug ''Module instance destroyed'']
   \<and> session_state (destroy mirrored_instance) = session_state mirrored_instance
   \<and> step (destroy mirrored_instance) (SockData 0 ''mute "A"=0'') = destroy mirrored_instance
   \<and> live_sockets (step (destroy mirrored_instance) (ConfigUpdated example_config)) = [1]\<close>
proof -
  have s: "socket mirrored_instance = Some 0"
    by (simp add: mirrored_instance_def socket_processDeviceData model_defs eff_defs to_str_def)
  have n: "length (sockets mirrored_instance) = 1"
    by (simp add: mirrored_instance_def sockets_processDeviceData model_defs eff_defs to_str_def)
  have c: "truthy (host example_config) \<and> truthy (port example_config)"
    by (simp add: truthy_def example_config_def)
  note t = destroy_closes_socket_keeps_state
    [of mirrored_instance
        \<open>[Init example_config, SockConnect 0,
          SockData 0 ''virtual_channels=Ch1'', SockData 0 ''presets="P1"'',
          SockData 0 ''mute "A"=1'', SockData 0 ''crosspoint_mute "In1" "Out2"=1'']\<close>
        0 \<open>''mute "A"=0''\<close> "[]" example_config]
  have r: \<open>mirrored_instance = run [Init example_config, SockConnect 0,
          SockData 0 ''virtual_channels=Ch1'', SockData 0 ''presets="P1"'',
          SockData 0 ''mute "A"=1'', SockData 0 ''crosspoint_mute "In1" "Out2"=1''] new_instance\<close>
    by (simp add: mirrored_instance_def connected_instance_def run_def)
  from t [OF r] show ?thesis by (simp add: s n c)
qed

text \<open>
  C7 as stated fails: after \<^verbatim>\<open>destroy\<close> on an instance that has mirrored a channel, a
  preset and two mute states, all four are still there, and a configuration
  update then opens a socket.
\<close>

theorem destroy_releases_state_counterexample:
  \<open>virtualChannels (destroy mirrored_instance) = [''Ch1'']
   \<and> presets (destroy mirrored_instance) = [''P1'']
   \<and> channelMuteStatus (destroy mirrored_instance) ''A'' = Some (Number 1)
   \<and> crosspointMuteStatus (destroy mirrored_instance) ''In1:Out2'' = Some (Number 1)
   \<and> live_sockets (destroy mirrored_instance) = []
   \<and> live_sockets (step (destroy mirrored_instance) (ConfigUpdated example_config)) = [1]\<close>
  by (simp add: mirrored_instance_def model_defs decode_defs str_defs eff_defs)

section \<open>A configuration update keeps the mirrored state\<close>

text \<open>
  C8. For every configuration and every instance, \<^verbatim>\<open>configUpdated\<close> leaves the
  channel list, the preset list, the channel mute map and the crosspoint mute map
  as they were, and stores the new configuration.
\<close>

theorem config_update_keeps_session_state:
  "session_state (configUpdated cfg w) = session_state w \<and> config (configUpdated cfg w) = cfg"
  by (simp add: configUpdated_def session_state_connectToDevice config_connectToDevice)
    (simp add: session_state_def)

section \<open>The key of the crosspoint mute map\<close>

text \<open>
  C9. The key of a crosspoint is the input name, a colon and the output name, and
  this is not injective: the distinct crosspoints (A:B, C) and (A, B:C) have the
  same key A:B:C, and the mute update of the second overwrites the entry the
  update of the first wrote.
\<close>

theorem crosspoint_key_collision:
  \<open>(''A:B'', ''C'') \<noteq> (''A'', ''B:C'')
   \<and> crosspoint_key ''A:B'' ''C'' = crosspoint_key ''A'' ''B:C''
   \<and> crosspointMuteStatus (processDeviceData ''crosspoint_mute "A:B" "C"=1'' w) =
       (crosspointMuteStatus w)(''A:B:C'' \<mapsto> Number 1)
   \<and> crosspointMuteStatus
         (processDeviceData ''crosspoint_mute "A" "B:C"=0''
            (processDeviceData ''crosspoint_mute "A:B" "C"=1'' w)) =
       (crosspointMuteStatus w)(''A:B:C'' \<mapsto> Number 0)\<close>
  by (simp add: decode_defs str_defs eff_defs)

section \<open>The status reported by init\<close>

text \<open>
  C10. For every configuration, the first thing \<^verbatim>\<open>init\<close> does is to report the status
  Ok, before the old socket is closed and before a new one is created, and it
  reports no other status. When the host or the port is missing, no socket is
  created and the socket field is \<^verbatim>\<open>null\<close>, and the reported status is still Ok.
\<close>

theorem init_reports_ok_first:
  "trace (init cfg w) =
     trace w @ [UpdateStatus Ok None] @
     (case socket w of None \<Rightarrow> [] | Some i \<Rightarrow> [SocketDestroy i]) @
     (if truthy (host cfg) \<and> truthy (port cfg)
      then [SocketCreate (length (sockets w)) (to_str (host cfg)) (to_str (port cfg))]
      else []) @
     [UpdateActions, UpdateFeedbacks, UpdateVariableDefinitions]
   \<and> (\<not> (truthy (host cfg) \<and> truthy (port cfg)) \<longrightarrow>
        socket (init cfg w) = None \<and> length (sockets (init cfg w)) = length (sockets w))"
  by (simp add: init_def eff_defs trace_connectToDevice socket_connectToDevice
        length_sockets_connectToDevice)

theorem init_reports_ok_first_witness:
  "\<not> (truthy (host no_port_config) \<and> truthy (port no_port_config))
   \<and> trace (init no_port_config new_instance) =
       [UpdateStatus Ok None, UpdateActions, UpdateFeedbacks, UpdateVariableDefinitions]
   \<and> socket (init no_port_config new_instance) = None
   \<and> length (sockets (init no_port_config new_instance)) = 0"
proof -
  have c: "\<not> (truthy (host no_port_config) \<and> truthy (port no_port_config))"
    by (simp add: truthy_def no_port_config_def)
  note t = init_reports_ok_first [of no_port_config new_instance]
  have e: "trace new_instance = []" "socket new_instance = None" "sockets new_instance = []"
    by (simp_all add: new_instance_def)
  from t c show ?thesis by (simp add: e)
qed

end
